theory Spec2Isabelle
  imports Main "HOL-Library.Word"
begin

unbundle bit_operations_syntax

section \<open>Python objects as the bindings see them\<close>

text \<open>
  The bindings in \<^verbatim>\<open>src/python.c\<close> talk to three parties: the CPython runtime
  (function objects, tuples, dictionaries, type objects), the RPC engine
  (\<^verbatim>\<open>ujrpc_param_named_...\<close>, \<^verbatim>\<open>ujrpc_param_positional_...\<close>,
  \<^verbatim>\<open>ujrpc_call_reply_content\<close>, \<^verbatim>\<open>ujrpc_add_procedure\<close>) and the serialiser
  \<^verbatim>\<open>to_string\<close>. Only the bindings are modelled as code; the other parties appear
  as data (what a call returns) or as parameters.
\<close>

text \<open>
  Python values. A C \<^verbatim>\<open>double\<close> is kept as its 64 bits, since the bindings only move it
  around; \<^verbatim>\<open>PyLong_FromSsize_t\<close> reads a 64-bit word as a signed number.
\<close>

datatype py_object =
    Py_None
  | Py_Bool bool
  | Py_Long int
  | Py_Float "64 word"
  | Py_Bytes string
  | Py_Unicode string

definition PyLong_FromSsize_t :: "64 word \<Rightarrow> py_object" where
  "PyLong_FromSsize_t w = Py_Long (sint w)"

text \<open>
  What the field \<^verbatim>\<open>type\<close> of a descriptor can point to. It is the annotation object, cast
  to \<^verbatim>\<open>PyTypeObject*\<close>: one of the five type objects the marshaller tests against, a
  class derived from a type (\<^verbatim>\<open>Py_Subclass\<close>, with its name and its base), a type object
  unrelated to the five (\<^verbatim>\<open>Py_Other_Type\<close>), or an object that is no type object at all
  (\<^verbatim>\<open>Py_Not_A_Type\<close>: the string of a quoted annotation, \<^verbatim>\<open>None\<close>).
\<close>

datatype py_type =
    PyBool_Type
  | PyLong_Type
  | PyFloat_Type
  | PyBytes_Type
  | PyUnicode_Type
  | Py_Subclass string py_type
  | Py_Other_Type string
  | Py_Not_A_Type py_object

fun is_type_object :: "py_type \<Rightarrow> bool" where
  "is_type_object (Py_Not_A_Type obj) = False"
| "is_type_object t = True"

text \<open>
  \<^verbatim>\<open>PyType_IsSubtype(a, b)\<close> for type objects: a type is a subtype of itself and of
  whatever its base is a subtype of; \<^verbatim>\<open>bool\<close> is a subclass of \<^verbatim>\<open>int\<close>. The call reads
  \<^verbatim>\<open>a->tp_mro\<close>, so it must not be given NULL or an object that is no type object; the
  marshaller's model tests for both before it uses this function.
\<close>

fun PyType_IsSubtype :: "py_type \<Rightarrow> py_type \<Rightarrow> bool" where
  "PyType_IsSubtype (Py_Subclass n base) b =
     (if Py_Subclass n base = b then True else PyType_IsSubtype base b)"
| "PyType_IsSubtype a b =
     (if a = b then True else if a = PyBool_Type then b = PyLong_Type else False)"

text \<open>
  What the C code does where it has no defined behaviour: a CPython call that reads
  through a NULL pointer, a use of memory or of a pointer that was never written, a
  write past the end of a \<^verbatim>\<open>malloc\<close> block, and a read past the end of an object (an
  object that is no type object read as a \<^verbatim>\<open>PyTypeObject\<close>).
\<close>

datatype fault = Null_Dereference | Uninitialised_Read | Buffer_Overrun | Out_Of_Bounds_Read

text \<open>
  An object handed to \<^verbatim>\<open>PyDict_GetItem\<close> as the dictionary: a NULL pointer
  (\<^verbatim>\<open>PyFunction_GetAnnotations\<close> of a function without annotations), an object that is not
  a dictionary (\<^verbatim>\<open>__kwdefaults__\<close> is \<^verbatim>\<open>None\<close>), or a dictionary.
\<close>

datatype ('k, 'v) dict_ref = Null_Ref | Not_A_Dict | Dict "'k \<rightharpoonup> 'v"

text \<open>
  \<^verbatim>\<open>PyDict_GetItem(op, key)\<close>: its type check reads through \<^verbatim>\<open>op\<close>; a non-dictionary gives
  NULL; hashing reads through \<^verbatim>\<open>key\<close>; a missing key gives NULL.
\<close>

definition PyDict_GetItem :: "('k, 'v) dict_ref \<Rightarrow> 'k option \<Rightarrow> fault + 'v option" where
  "PyDict_GetItem op key =
     (case op of
        Null_Ref \<Rightarrow> Inl Null_Dereference
      | Not_A_Dict \<Rightarrow> Inr None
      | Dict d \<Rightarrow> (case key of None \<Rightarrow> Inl Null_Dereference | Some k \<Rightarrow> Inr (d k)))"

text \<open>\<^verbatim>\<open>PyTuple_GetItem(t, i)\<close>: NULL (with IndexError set) when \<^verbatim>\<open>i\<close> is out of range.\<close>

definition PyTuple_GetItem :: "'a list \<Rightarrow> int \<Rightarrow> 'a option" where
  "PyTuple_GetItem t i = (if 0 \<le> i \<and> i < int (length t) then Some (t ! nat i) else None)"

text \<open>
  A Python function object: \<^verbatim>\<open>__name__\<close>, the fields of \<^verbatim>\<open>__code__\<close> that
  \<^verbatim>\<open>deduce_parameters\<close> reads, its annotations, \<^verbatim>\<open>__defaults__\<close> (a tuple or \<^verbatim>\<open>None\<close>),
  \<^verbatim>\<open>__kwdefaults__\<close> (a dictionary or \<^verbatim>\<open>None\<close>), and what its body returns for the
  arguments it is entered with (NULL when it raises).
\<close>

record py_function =
  func_name :: string
  co_varnames :: "string list"
  co_flags :: int
  co_argcount :: int
  co_posonlyargcount :: int
  co_kwonlyargcount :: int
  func_annotations :: "(string, py_type) dict_ref"
  func_defaults :: "py_object list option"
  func_kwdefaults :: "(string, py_object) dict_ref"
  func_body :: "py_object list \<Rightarrow> py_object option"

text \<open>The flags of \<^verbatim>\<open>co_flags\<close>, as CPython's \<^verbatim>\<open>code.h\<close> defines them.\<close>

definition CO_VARARGS :: int where
  "CO_VARARGS = 4"

definition CO_VARKEYWORDS :: int where
  "CO_VARKEYWORDS = 8"

section \<open>The data of the bindings\<close>

definition max_response_length :: nat where
  "max_response_length = 1024"

datatype py_param_kind_t =
    POSITIONAL_ONLY
  | POSITIONAL_OR_KEYWORD
  | VAR_POSITIONAL
  | KEYWORD_ONLY
  | VAR_KEYWORD

text \<open>The integer value of each enumerator, in declaration order from 0.\<close>

fun kind_value :: "py_param_kind_t \<Rightarrow> int" where
  "kind_value POSITIONAL_ONLY = 0"
| "kind_value POSITIONAL_OR_KEYWORD = 1"
| "kind_value VAR_POSITIONAL = 2"
| "kind_value KEYWORD_ONLY = 3"
| "kind_value VAR_KEYWORD = 4"

text \<open>
  \<^verbatim>\<open>py_param_t\<close>: each pointer field is NULL or an object. The field \<^verbatim>\<open>value\<close> of the
  source, the default, is \<^verbatim>\<open>default_value\<close> here.
\<close>

record py_param_t =
  name :: "string option"
  default_value :: "py_object option"
  type :: "py_type option"
  kind :: py_param_kind_t

text \<open>
  \<^verbatim>\<open>py_wrapper_t\<close>. \<^verbatim>\<open>u_params\<close> is the \<^verbatim>\<open>malloc\<close> block: a slot that was never written
  is \<^verbatim>\<open>None\<close>. The one global of this type is \<^verbatim>\<open>wrap\<close>; it starts zeroed.
\<close>

record py_wrapper_t =
  u_params :: "py_param_t option list"
  params_cnt :: nat
  callable :: "py_function option"

definition wrap_initial :: py_wrapper_t where
  "wrap_initial = \<lparr>u_params = [], params_cnt = 0, callable = None\<rparr>"

section \<open>Signature deduction\<close>

text \<open>One descriptor: the name, the default, the annotation looked up by name, the kind.\<close>

definition new_param ::
  "py_function \<Rightarrow> string option \<Rightarrow> py_object option \<Rightarrow> py_param_kind_t \<Rightarrow> fault + py_param_t" where
  "new_param func nm v k =
     (case PyDict_GetItem (func_annotations func) nm of
        Inl e \<Rightarrow> Inl e
      | Inr t \<Rightarrow> Inr \<lparr>name = nm, default_value = v, type = t, kind = k\<rparr>)"

text \<open>\<^verbatim>\<open>parameters[param_i++] = param\<close> into a block of \<^verbatim>\<open>total_params\<close> slots.\<close>

definition store_param :: "int \<Rightarrow> py_param_t list \<Rightarrow> py_param_t \<Rightarrow> fault + py_param_t list" where
  "store_param total_params ps p =
     (if int (length ps) < total_params then Inr (ps @ [p]) else Inl Buffer_Overrun)"

text \<open>
  The two loops over the positional parameters; the state is \<^verbatim>\<open>posonly_left\<close> and the
  descriptors written so far. The second loop reads the default at
  \<^verbatim>\<open>i - non_default_count\<close>.
\<close>

fun non_default_loop ::
  "py_function \<Rightarrow> int \<Rightarrow> int list \<Rightarrow> int \<times> py_param_t list \<Rightarrow> fault + (int \<times> py_param_t list)" where
  "non_default_loop func total_params [] s = Inr s"
| "non_default_loop func total_params (i # rest) (posonly_left, ps) =
     (case new_param func (PyTuple_GetItem (co_varnames func) i) None
             (if posonly_left > 0 then POSITIONAL_ONLY else POSITIONAL_OR_KEYWORD) of
        Inl e \<Rightarrow> Inl e
      | Inr p \<Rightarrow>
          (case store_param total_params ps p of
             Inl e \<Rightarrow> Inl e
           | Inr ps' \<Rightarrow> non_default_loop func total_params rest (posonly_left - 1, ps')))"

fun default_loop ::
  "py_function \<Rightarrow> int \<Rightarrow> int \<Rightarrow> int list \<Rightarrow> int \<times> py_param_t list \<Rightarrow> fault + (int \<times> py_param_t list)" where
  "default_loop func total_params non_default_count [] s = Inr s"
| "default_loop func total_params non_default_count (i # rest) (posonly_left, ps) =
     (case new_param func (PyTuple_GetItem (co_varnames func) i)
             (case func_defaults func of
                None \<Rightarrow> None
              | Some t \<Rightarrow> PyTuple_GetItem t (i - non_default_count))
             (if posonly_left > 0 then POSITIONAL_ONLY else POSITIONAL_OR_KEYWORD) of
        Inl e \<Rightarrow> Inl e
      | Inr p \<Rightarrow>
          (case store_param total_params ps p of
             Inl e \<Rightarrow> Inl e
           | Inr ps' \<Rightarrow>
               default_loop func total_params non_default_count rest (posonly_left - 1, ps')))"

text \<open>The loop over the keyword-only names; the default is looked up in \<^verbatim>\<open>__kwdefaults__\<close>.\<close>

fun keyword_only_loop ::
  "py_function \<Rightarrow> int \<Rightarrow> int list \<Rightarrow> py_param_t list \<Rightarrow> fault + py_param_t list" where
  "keyword_only_loop func total_params [] ps = Inr ps"
| "keyword_only_loop func total_params (i # rest) ps =
     (case PyDict_GetItem (func_kwdefaults func) (PyTuple_GetItem (co_varnames func) i) of
        Inl e \<Rightarrow> Inl e
      | Inr v \<Rightarrow>
          (case new_param func (PyTuple_GetItem (co_varnames func) i) v KEYWORD_ONLY of
             Inl e \<Rightarrow> Inl e
           | Inr p \<Rightarrow>
               (case store_param total_params ps p of
                  Inl e \<Rightarrow> Inl e
                | Inr ps' \<Rightarrow> keyword_only_loop func total_params rest ps')))"

text \<open>
  The descriptor of \<^verbatim>\<open>*args\<close> or \<^verbatim>\<open>**kwargs\<close>, written when \<^verbatim>\<open>flag\<close> (the C condition)
  is nonzero, with the name at \<^verbatim>\<open>index\<close> of \<^verbatim>\<open>co_varnames\<close>.
\<close>

definition variadic_param ::
  "py_function \<Rightarrow> int \<Rightarrow> int \<Rightarrow> int \<Rightarrow> py_param_kind_t \<Rightarrow> py_param_t list \<Rightarrow> fault + py_param_t list" where
  "variadic_param func total_params flag index k ps =
     (if flag \<noteq> 0 then
        (case new_param func (PyTuple_GetItem (co_varnames func) index) None k of
           Inl e \<Rightarrow> Inl e
         | Inr p \<Rightarrow> store_param total_params ps p)
      else Inr ps)"

text \<open>The C operator \<^verbatim>\<open>&&\<close> on integers: 1 when both operands are nonzero, else 0.\<close>

definition logical_and :: "int \<Rightarrow> int \<Rightarrow> int" where
  "logical_and a b = (if a \<noteq> 0 \<and> b \<noteq> 0 then 1 else 0)"

text \<open>\<^verbatim>\<open>total_params\<close> as the source computes it.\<close>

definition total_params_of :: "py_function \<Rightarrow> int" where
  "total_params_of func =
     co_argcount func + (co_flags func AND CO_VARARGS) + co_kwonlyargcount func
       + (co_flags func AND CO_VARKEYWORDS)"

text \<open>
  \<^verbatim>\<open>deduce_parameters\<close>: the descriptors are written in five steps into a fresh block of
  \<^verbatim>\<open>total_params\<close> slots, and the block and \<^verbatim>\<open>total_params\<close> replace \<^verbatim>\<open>wrap.u_params\<close>
  and \<^verbatim>\<open>wrap.params_cnt\<close>. The slots past the last descriptor written keep what
  \<^verbatim>\<open>malloc\<close> returned. \<^verbatim>\<open>params_cnt\<close> is a \<^verbatim>\<open>size_t\<close>.
\<close>

definition deduce_parameters :: "py_wrapper_t \<Rightarrow> py_function \<Rightarrow> fault + py_wrapper_t" where
  "deduce_parameters w func =
     (let pos_count = co_argcount func;
          keyword_only_count = co_kwonlyargcount func;
          pos_default_count =
            (case func_defaults func of None \<Rightarrow> 0 | Some t \<Rightarrow> int (length t));
          non_default_count = pos_count - pos_default_count;
          total_params = total_params_of func
      in
        case non_default_loop func total_params [0 .. non_default_count - 1]
               (co_posonlyargcount func, []) of
          Inl e \<Rightarrow> Inl e
        | Inr s1 \<Rightarrow>
        (case default_loop func total_params non_default_count
                [non_default_count .. pos_count - 1] s1 of
          Inl e \<Rightarrow> Inl e
        | Inr s2 \<Rightarrow>
        (case variadic_param func total_params (co_flags func AND CO_VARARGS)
                (pos_count + keyword_only_count) VAR_POSITIONAL (snd s2) of
          Inl e \<Rightarrow> Inl e
        | Inr ps3 \<Rightarrow>
        (case keyword_only_loop func total_params
                [pos_count .. pos_count + keyword_only_count - 1] ps3 of
          Inl e \<Rightarrow> Inl e
        | Inr ps4 \<Rightarrow>
        (case variadic_param func total_params (co_flags func AND CO_VARKEYWORDS)
                (pos_count + keyword_only_count
                   + logical_and (co_flags func) CO_VARARGS) VAR_KEYWORD ps4 of
          Inl e \<Rightarrow> Inl e
        | Inr ps5 \<Rightarrow>
            Inr (w\<lparr>u_params := map Some ps5 @ replicate (nat total_params - length ps5) None,
                      params_cnt := nat (total_params mod 2 ^ 64)\<rparr>))))))"

section \<open>The call marshaller\<close>

text \<open>
  The call context of the engine, as the marshaller uses it: each getter returns
  \<^verbatim>\<open>true\<close> and writes its result (\<open>Some\<close>), or returns \<^verbatim>\<open>false\<close> and writes nothing
  (\<open>None\<close>). The header \<^verbatim>\<open>ujrpc/ujrpc.h\<close> is not part of the sources, so the getters
  are parameters.
\<close>

record ujrpc_call_t =
  ujrpc_param_named_bool :: "string \<Rightarrow> bool option"
  ujrpc_param_named_i64 :: "string \<Rightarrow> 64 word option"
  ujrpc_param_named_f64 :: "string \<Rightarrow> 64 word option"
  ujrpc_param_named_str :: "string \<Rightarrow> string option"
  ujrpc_param_positional_bool :: "nat \<Rightarrow> bool option"
  ujrpc_param_positional_i64 :: "nat \<Rightarrow> 64 word option"
  ujrpc_param_positional_f64 :: "nat \<Rightarrow> 64 word option"
  ujrpc_param_positional_str :: "nat \<Rightarrow> string option"

text \<open>
  What the marshaller depends on and the sources do not fix: the value an uninitialised
  local \<^verbatim>\<open>res\<close> happens to hold in iteration \<open>i\<close>, and the serialiser \<^verbatim>\<open>to_string\<close> of
  \<^verbatim>\<open>helpers/py_parse.hpp\<close>, which gets the object and the buffer but not the buffer's
  size, and gives back a status and the bytes it wrote (\<^verbatim>\<open>len\<close> is their number).
\<close>

record runtime =
  uninit_bool :: "nat \<Rightarrow> bool"
  uninit_i64 :: "nat \<Rightarrow> 64 word"
  uninit_f64 :: "nat \<Rightarrow> 64 word"
  to_string :: "py_object option \<Rightarrow> int \<times> string"

text \<open>
  \<^verbatim>\<open>may_have_name\<close> and \<^verbatim>\<open>may_have_pos\<close>: the enumerators are combined with the bitwise
  operators, and the integer is read as a \<^verbatim>\<open>bool\<close>.
\<close>

definition may_have_name :: "py_param_kind_t \<Rightarrow> bool" where
  "may_have_name k =
     (((kind_value k AND kind_value POSITIONAL_OR_KEYWORD)
        OR (kind_value k AND kind_value KEYWORD_ONLY)
        OR (kind_value k AND kind_value VAR_KEYWORD)) \<noteq> 0)"

definition may_have_pos :: "py_param_kind_t \<Rightarrow> bool" where
  "may_have_pos k =
     (((kind_value k AND kind_value POSITIONAL_OR_KEYWORD)
        OR (kind_value k AND kind_value POSITIONAL_ONLY)
        OR (kind_value k AND kind_value VAR_POSITIONAL)) \<noteq> 0)"

text \<open>A getter call the marshaller makes on the call context.\<close>

datatype attempt = By_Name string | By_Position nat

text \<open>
  The two \<^verbatim>\<open>if\<close> statements every typed branch of the marshaller starts with:
  \<^verbatim>\<open>if (may_have_name && name_len > 0) got_named = named(...)\<close>, then
  \<^verbatim>\<open>if (may_have_pos && !got_named) positional(...)\<close>. The result is the getter calls
  made and what \<^verbatim>\<open>res\<close> holds afterwards (\<open>None\<close>: never written).
\<close>

definition fetch ::
  "bool \<Rightarrow> bool \<Rightarrow> string \<Rightarrow> nat \<Rightarrow> (string \<Rightarrow> 'a option) \<Rightarrow> (nat \<Rightarrow> 'a option)
     \<Rightarrow> attempt list \<times> 'a option" where
  "fetch by_name by_pos nm i named positional =
     (if by_name \<and> 0 < length nm then
        (case named nm of
           Some v \<Rightarrow> ([By_Name nm], Some v)
         | None \<Rightarrow> (if by_pos then ([By_Name nm, By_Position i], positional i)
                    else ([By_Name nm], None)))
      else if by_pos then ([By_Position i], positional i)
      else ([], None))"

text \<open>
  One iteration of the marshaller's loop, for slot \<open>i\<close> of \<^verbatim>\<open>wrap.u_params\<close>: the getter
  calls made, and either a fault or what \<^verbatim>\<open>PyTuple_SetItem\<close> stores at \<open>i\<close> (\<open>None\<close>: the
  branch stores nothing). \<^verbatim>\<open>PyUnicode_AsUTF8AndSize\<close> reads through the name and
  \<^verbatim>\<open>PyType_IsSubtype\<close> through the type, as a \<^verbatim>\<open>PyTypeObject\<close>. In the string branch the
  positional getter is handed \<^verbatim>\<open>res\<close> itself, not its address, so it cannot set \<^verbatim>\<open>res\<close>.
\<close>

definition marshal_param ::
  "runtime \<Rightarrow> ujrpc_call_t \<Rightarrow> py_param_t option \<Rightarrow> nat
     \<Rightarrow> attempt list \<times> (fault + py_object option)" where
  "marshal_param rt call slot i =
     (case slot of
        None \<Rightarrow> ([], Inl Uninitialised_Read)
      | Some p \<Rightarrow>
          (let by_name = may_have_name (kind p);
               by_pos = may_have_pos (kind p)
           in
             if by_name \<and> name p = None then ([], Inl Null_Dereference)
             else
               (case type p of
                  None \<Rightarrow> ([], Inl Null_Dereference)
                | Some t \<Rightarrow>
                    (let nm = (if by_name then (case name p of Some n \<Rightarrow> n | None \<Rightarrow> [])
                               else [])
                     in
                       if \<not> is_type_object t then ([], Inl Out_Of_Bounds_Read)
                       else if PyType_IsSubtype t PyBool_Type then
                         (case fetch by_name by_pos nm i (ujrpc_param_named_bool call)
                                 (ujrpc_param_positional_bool call) of
                            (tr, res) \<Rightarrow>
                              (tr, Inr (Some (Py_Bool
                                 (case res of Some b \<Rightarrow> b | None \<Rightarrow> uninit_bool rt i)))))
                       else if PyType_IsSubtype t PyLong_Type then
                         (case fetch by_name by_pos nm i (ujrpc_param_named_i64 call)
                                 (ujrpc_param_positional_i64 call) of
                            (tr, res) \<Rightarrow>
                              (tr, Inr (Some (PyLong_FromSsize_t
                                 (case res of Some v \<Rightarrow> v | None \<Rightarrow> uninit_i64 rt i)))))
                       else if PyType_IsSubtype t PyFloat_Type then
                         (case fetch by_name by_pos nm i (ujrpc_param_named_f64 call)
                                 (ujrpc_param_positional_f64 call) of
                            (tr, res) \<Rightarrow>
                              (tr, Inr (Some (Py_Float
                                 (case res of Some v \<Rightarrow> v | None \<Rightarrow> uninit_f64 rt i)))))
                       else if PyType_IsSubtype t PyBytes_Type then ([], Inr None)
                       else if PyType_IsSubtype t PyUnicode_Type then
                         (case fetch by_name by_pos nm i (ujrpc_param_named_str call)
                                 (\<lambda>j. None) of
                            (tr, res) \<Rightarrow>
                              (tr, case res of
                                     Some s \<Rightarrow> Inr (Some (Py_Unicode s))
                                   | None \<Rightarrow> Inl Uninitialised_Read))
                       else ([], Inr None)))))"

text \<open>\<^verbatim>\<open>wrap.u_params[i]\<close>; past the block there is nothing that was written.\<close>

definition read_param :: "py_wrapper_t \<Rightarrow> nat \<Rightarrow> py_param_t option" where
  "read_param w i = (if i < length (u_params w) then u_params w ! i else None)"

text \<open>
  The marshaller's loop over \<open>i = 0, ..., params_cnt - 1\<close>. The state is the getter calls
  so far and the tuple \<^verbatim>\<open>args\<close>, whose slots start as NULL.
\<close>

fun marshal_loop ::
  "runtime \<Rightarrow> ujrpc_call_t \<Rightarrow> py_wrapper_t \<Rightarrow> nat list \<Rightarrow> attempt list \<times> py_object option list
     \<Rightarrow> attempt list \<times> (fault + py_object option list)" where
  "marshal_loop rt call w [] (tr, args) = (tr, Inr args)"
| "marshal_loop rt call w (i # rest) (tr, args) =
     (case marshal_param rt call (read_param w i) i of
        (tr_i, Inl e) \<Rightarrow> (tr @ tr_i, Inl e)
      | (tr_i, Inr None) \<Rightarrow> marshal_loop rt call w rest (tr @ tr_i, args)
      | (tr_i, Inr (Some obj)) \<Rightarrow> marshal_loop rt call w rest (tr @ tr_i, args[i := Some obj]))"

text \<open>
  What a completed run of the marshaller did: the function called and the arguments it
  was entered with, what it returned, the size of the block allocated for the response,
  and the bytes handed to \<^verbatim>\<open>ujrpc_call_reply_content\<close>.
\<close>

record reply =
  called :: py_function
  arguments :: "py_object list"
  response :: "py_object option"
  buffer_size :: nat
  content :: string

text \<open>
  \<^verbatim>\<open>wrapper\<close>: the loop, the call of \<^verbatim>\<open>wrap.callable\<close>, the serialisation into a block of
  \<^verbatim>\<open>max_response_length\<close> bytes, the reply. \<^verbatim>\<open>PyObject_CallObject\<close> reads through the
  callable and through every item of the tuple, so with a slot that is still NULL the
  function is not entered (\<open>those args\<close> is \<open>None\<close> exactly then). The status of
  \<^verbatim>\<open>to_string\<close> is assigned to a local and not read again.
\<close>

definition wrapper ::
  "runtime \<Rightarrow> py_wrapper_t \<Rightarrow> ujrpc_call_t \<Rightarrow> attempt list \<times> (fault + reply)" where
  "wrapper rt w call =
     (case marshal_loop rt call w [0 ..< params_cnt w] ([], replicate (params_cnt w) None) of
        (tr, Inl e) \<Rightarrow> (tr, Inl e)
      | (tr, Inr args) \<Rightarrow>
          (case callable w of
             None \<Rightarrow> (tr, Inl Null_Dereference)
           | Some f \<Rightarrow>
               (case those args of
                  None \<Rightarrow> (tr, Inl Null_Dereference)
                | Some objs \<Rightarrow>
                    (let resp = func_body f objs;
                         parsed = snd (to_string rt resp)
                     in if max_response_length < length parsed then (tr, Inl Buffer_Overrun)
                        else (tr, Inr \<lparr>called = f, arguments = objs, response = resp,
                                       buffer_size = max_response_length,
                                       content = parsed\<rparr>)))))"

section \<open>The server object\<close>

text \<open>
  \<^verbatim>\<open>py_server_t\<close>. Of the engine's \<^verbatim>\<open>ujrpc_server_t\<close> the model keeps the names passed to
  \<^verbatim>\<open>ujrpc_add_procedure\<close>, in order; the handler passed with each of them is \<^verbatim>\<open>wrapper\<close>.
\<close>

record ujrpc_config_t =
  port :: int
  queue_depth :: int
  max_callbacks :: int

record py_server_t =
  config :: ujrpc_config_t
  server :: "string list"
  count_added :: nat
  thread_cnt :: nat

text \<open>The state \<^verbatim>\<open>server_add_procedure\<close> works on: the global \<^verbatim>\<open>wrap\<close> and the object \<^verbatim>\<open>self\<close>.\<close>

record state =
  wrap :: py_wrapper_t
  self :: py_server_t

text \<open>\<^verbatim>\<open>server_new\<close>: \<^verbatim>\<open>tp_alloc\<close> gives a zeroed object.\<close>

definition server_new :: py_server_t where
  "server_new =
     \<lparr>config = \<lparr>port = 0, queue_depth = 0, max_callbacks = 0\<rparr>, server = [],
      count_added = 0, thread_cnt = 0\<rparr>"

text \<open>An argument of \<^verbatim>\<open>add_procedure\<close>, and what a method gives back to Python.\<close>

datatype py_arg = Function py_function | Not_Callable py_object

datatype py_return = Raised string | Returned py_object

text \<open>
  \<^verbatim>\<open>server_add_procedure\<close>: one callable argument or a \<^verbatim>\<open>TypeError\<close>; then the signature
  goes into \<^verbatim>\<open>wrap\<close>, the callable into \<^verbatim>\<open>wrap.callable\<close>, and the name to the engine.
  \<^verbatim>\<open>deduce_parameters\<close> always returns 0.
\<close>

definition server_add_procedure :: "state \<Rightarrow> py_arg list \<Rightarrow> fault + (py_return \<times> state)" where
  "server_add_procedure st args =
     (case args of
        [Function procedure] \<Rightarrow>
          (case deduce_parameters (wrap st) procedure of
             Inl e \<Rightarrow> Inl e
           | Inr w \<Rightarrow>
               Inr (Returned Py_None,
                    st\<lparr>wrap := w\<lparr>callable := Some procedure\<rparr>,
                       self := (self st)\<lparr>server := server (self st) @ [func_name procedure]\<rparr>\<rparr>))
      | _ \<Rightarrow> Inr (Raised ''Need a callable object!'', st))"

text \<open>A sequence of \<^verbatim>\<open>add_procedure\<close> calls, each on the state the one before left.\<close>

fun add_procedures :: "state \<Rightarrow> py_arg list list \<Rightarrow> fault + state" where
  "add_procedures st [] = Inr st"
| "add_procedures st (args # rest) =
     (case server_add_procedure st args of
        Inl e \<Rightarrow> Inl e
      | Inr (r, st') \<Rightarrow> add_procedures st' rest)"

definition server_callbacks_count :: "py_server_t \<Rightarrow> nat" where
  "server_callbacks_count s = count_added s"

text \<open>
  Modelled from the spec: the engine's dispatch, which is not part of the sources. A
  request for a name that was registered runs the handler registered with it, and that
  handler is \<^verbatim>\<open>wrapper\<close>, which reads the global \<^verbatim>\<open>wrap\<close>.
\<close>

definition take_call ::
  "runtime \<Rightarrow> state \<Rightarrow> string \<Rightarrow> ujrpc_call_t \<Rightarrow> (attempt list \<times> (fault + reply)) option" where
  "take_call rt st nm call =
     (if nm \<in> set (server (self st)) then Some (wrapper rt (wrap st) call) else None)"

section \<open>Callables and calls used in the evaluations\<close>

text \<open>
  \<^verbatim>\<open>co_flags\<close> below is \<^verbatim>\<open>CO_OPTIMIZED | CO_NEWLOCALS | CO_NOFREE\<close> (67), plus 4 for
  \<^verbatim>\<open>*args\<close> and 8 for \<^verbatim>\<open>**kw\<close>. Every function has an annotations dictionary.
\<close>

text \<open>\<^verbatim>\<open>def f(a: int): return a > 0\<close>\<close>

definition proc_f :: py_function where
  "proc_f =
     \<lparr>func_name = ''f'', co_varnames = [''a''], co_flags = 67, co_argcount = 1,
      co_posonlyargcount = 0, co_kwonlyargcount = 0,
      func_annotations = Dict [''a'' \<mapsto> PyLong_Type], func_defaults = None,
      func_kwdefaults = Not_A_Dict,
      func_body = (\<lambda>args. case args of [Py_Long n] \<Rightarrow> Some (Py_Bool (0 < n)) | _ \<Rightarrow> None)\<rparr>"

text \<open>\<^verbatim>\<open>def g(x: int): return x == 0\<close>\<close>

definition proc_g :: py_function where
  "proc_g =
     \<lparr>func_name = ''g'', co_varnames = [''x''], co_flags = 67, co_argcount = 1,
      co_posonlyargcount = 0, co_kwonlyargcount = 0,
      func_annotations = Dict [''x'' \<mapsto> PyLong_Type], func_defaults = None,
      func_kwdefaults = Not_A_Dict,
      func_body = (\<lambda>args. case args of [Py_Long n] \<Rightarrow> Some (Py_Bool (n = 0)) | _ \<Rightarrow> None)\<rparr>"

text \<open>\<^verbatim>\<open>def star(*args: int): return None\<close>\<close>

definition proc_star :: py_function where
  "proc_star =
     \<lparr>func_name = ''star'', co_varnames = [''args''], co_flags = 71, co_argcount = 0,
      co_posonlyargcount = 0, co_kwonlyargcount = 0,
      func_annotations = Dict [''args'' \<mapsto> PyLong_Type], func_defaults = None,
      func_kwdefaults = Not_A_Dict, func_body = (\<lambda>args. Some Py_None)\<rparr>"

text \<open>
  \<^verbatim>\<open>def f(a, b=2, *args, c, d=4, **kw) -> None\<close>: no parameter is annotated;
  \<^verbatim>\<open>co_varnames\<close> lists the positional names, the keyword-only names, then \<^verbatim>\<open>args\<close> and
  \<^verbatim>\<open>kw\<close>.
\<close>

definition proc_six :: py_function where
  "proc_six =
     \<lparr>func_name = ''f'', co_varnames = [''a'', ''b'', ''c'', ''d'', ''args'', ''kw''],
      co_flags = 79, co_argcount = 2, co_posonlyargcount = 0, co_kwonlyargcount = 2,
      func_annotations = Dict [''return'' \<mapsto> Py_Not_A_Type Py_None],
      func_defaults = Some [Py_Long 2],
      func_kwdefaults = Dict [''d'' \<mapsto> Py_Long 4], func_body = (\<lambda>args. Some Py_None)\<rparr>"

text \<open>
  \<^verbatim>\<open>def opts(a: int, **kw: int): x = 1\<close>; the local \<^verbatim>\<open>x\<close> follows the parameters in
  \<^verbatim>\<open>co_varnames\<close>.
\<close>

definition proc_opts :: py_function where
  "proc_opts =
     \<lparr>func_name = ''opts'', co_varnames = [''a'', ''kw'', ''x''], co_flags = 75,
      co_argcount = 1, co_posonlyargcount = 0, co_kwonlyargcount = 0,
      func_annotations = Dict [''a'' \<mapsto> PyLong_Type, ''kw'' \<mapsto> PyLong_Type],
      func_defaults = None, func_kwdefaults = Not_A_Dict,
      func_body = (\<lambda>args. Some Py_None)\<rparr>"

text \<open>\<^verbatim>\<open>def h(a: int = 2): return a == 2\<close>\<close>

definition proc_h :: py_function where
  "proc_h =
     \<lparr>func_name = ''h'', co_varnames = [''a''], co_flags = 67, co_argcount = 1,
      co_posonlyargcount = 0, co_kwonlyargcount = 0,
      func_annotations = Dict [''a'' \<mapsto> PyLong_Type], func_defaults = Some [Py_Long 2],
      func_kwdefaults = Not_A_Dict,
      func_body = (\<lambda>args. case args of [Py_Long n] \<Rightarrow> Some (Py_Bool (n = 2)) | _ \<Rightarrow> None)\<rparr>"

text \<open>\<^verbatim>\<open>def size(data: bytes): return None\<close>\<close>

definition proc_size :: py_function where
  "proc_size =
     \<lparr>func_name = ''size'', co_varnames = [''data''], co_flags = 67, co_argcount = 1,
      co_posonlyargcount = 0, co_kwonlyargcount = 0,
      func_annotations = Dict [''data'' \<mapsto> PyBytes_Type], func_defaults = None,
      func_kwdefaults = Not_A_Dict, func_body = (\<lambda>args. Some Py_None)\<rparr>"

text \<open>\<^verbatim>\<open>def only(a: int, /): return a > 0\<close>\<close>

definition proc_only :: py_function where
  "proc_only =
     \<lparr>func_name = ''only'', co_varnames = [''a''], co_flags = 67, co_argcount = 1,
      co_posonlyargcount = 1, co_kwonlyargcount = 0,
      func_annotations = Dict [''a'' \<mapsto> PyLong_Type], func_defaults = None,
      func_kwdefaults = Not_A_Dict,
      func_body = (\<lambda>args. case args of [Py_Long n] \<Rightarrow> Some (Py_Bool (0 < n)) | _ \<Rightarrow> None)\<rparr>"

text \<open>\<^verbatim>\<open>def big() -> str: return "x" * 2000\<close>\<close>

definition proc_big :: py_function where
  "proc_big =
     \<lparr>func_name = ''big'', co_varnames = [], co_flags = 67, co_argcount = 0,
      co_posonlyargcount = 0, co_kwonlyargcount = 0,
      func_annotations = Dict [''return'' \<mapsto> PyUnicode_Type], func_defaults = None,
      func_kwdefaults = Not_A_Dict,
      func_body = (\<lambda>args. Some (Py_Unicode (replicate 2000 (CHR ''x''))))\<rparr>"

text \<open>\<^verbatim>\<open>def greet(who: str): return who\<close>\<close>

definition proc_greet :: py_function where
  "proc_greet =
     \<lparr>func_name = ''greet'', co_varnames = [''who''], co_flags = 67, co_argcount = 1,
      co_posonlyargcount = 0, co_kwonlyargcount = 0,
      func_annotations = Dict [''who'' \<mapsto> PyUnicode_Type], func_defaults = None,
      func_kwdefaults = Not_A_Dict,
      func_body = (\<lambda>args. case args of [v] \<Rightarrow> Some v | _ \<Rightarrow> None)\<rparr>"

text \<open>The state before any registration, and a call context that holds no parameter.\<close>

definition state_initial :: state where
  "state_initial = \<lparr>wrap = wrap_initial, self = server_new\<rparr>"

definition call_empty :: ujrpc_call_t where
  "call_empty =
     \<lparr>ujrpc_param_named_bool = (\<lambda>n. None), ujrpc_param_named_i64 = (\<lambda>n. None),
      ujrpc_param_named_f64 = (\<lambda>n. None), ujrpc_param_named_str = (\<lambda>n. None),
      ujrpc_param_positional_bool = (\<lambda>i. None), ujrpc_param_positional_i64 = (\<lambda>i. None),
      ujrpc_param_positional_f64 = (\<lambda>i. None), ujrpc_param_positional_str = (\<lambda>i. None)\<rparr>"

text \<open>
  Two serialisers for the evaluations. Both write a string in double quotes, \<^verbatim>\<open>null\<close>,
  \<^verbatim>\<open>true\<close> or \<^verbatim>\<open>false\<close>, and give status -1 for anything else. The first writes every
  byte; the second stops after 1024 bytes and then gives status -1.
\<close>

definition to_string_all :: "py_object option \<Rightarrow> int \<times> string" where
  "to_string_all r =
     (case r of
        Some (Py_Unicode s) \<Rightarrow> (0, [CHR 0x22] @ s @ [CHR 0x22])
      | Some Py_None \<Rightarrow> (0, ''null'')
      | Some (Py_Bool b) \<Rightarrow> (0, if b then ''true'' else ''false'')
      | _ \<Rightarrow> (-1, []))"

definition to_string_bounded :: "py_object option \<Rightarrow> int \<times> string" where
  "to_string_bounded r =
     (case to_string_all r of
        (status, bytes) \<Rightarrow>
          (if 1024 < length bytes then (-1, take 1024 bytes) else (status, bytes)))"

definition rt_all :: runtime where
  "rt_all =
     \<lparr>uninit_bool = (\<lambda>i. False), uninit_i64 = (\<lambda>i. 0), uninit_f64 = (\<lambda>i. 0),
      to_string = to_string_all\<rparr>"

definition rt_bounded :: runtime where
  "rt_bounded = rt_all\<lparr>to_string := to_string_bounded\<rparr>"

section \<open>Evaluation lemmas\<close>

lemmas deduce_defs =
  deduce_parameters_def total_params_of_def CO_VARARGS_def CO_VARKEYWORDS_def new_param_def
  store_param_def PyDict_GetItem_def PyTuple_GetItem_def variadic_param_def logical_and_def
  upto.simps

lemmas wrapper_defs =
  wrapper_def marshal_param_def read_param_def fetch_def may_have_name_def may_have_pos_def
  max_response_length_def Let_def

lemma deduce_proc_f:
  "deduce_parameters w proc_f =
     Inr (w\<lparr>u_params := [Some \<lparr>name = Some ''a'', default_value = None,
                                type = Some PyLong_Type, kind = POSITIONAL_OR_KEYWORD\<rparr>],
             params_cnt := 1\<rparr>)"
  by (simp add: deduce_defs proc_f_def)

lemma deduce_proc_g:
  "deduce_parameters w proc_g =
     Inr (w\<lparr>u_params := [Some \<lparr>name = Some ''x'', default_value = None,
                                type = Some PyLong_Type, kind = POSITIONAL_OR_KEYWORD\<rparr>],
             params_cnt := 1\<rparr>)"
  by (simp add: deduce_defs proc_g_def)

lemma add_proc_f_proc_g:
  "add_procedures state_initial [[Function proc_f], [Function proc_g]] =
     Inr \<lparr>wrap = \<lparr>u_params = [Some \<lparr>name = Some ''x'', default_value = None,
                                      type = Some PyLong_Type, kind = POSITIONAL_OR_KEYWORD\<rparr>],
                   params_cnt = 1, callable = Some proc_g\<rparr>,
          self = server_new\<lparr>server := [''f'', ''g'']\<rparr>\<rparr>"
proof -
  have names: "func_name proc_f = ''f''" "func_name proc_g = ''g''"
    by (simp_all add: proc_f_def proc_g_def)
  show ?thesis
    by (simp add: server_add_procedure_def deduce_proc_f deduce_proc_g state_initial_def
        wrap_initial_def server_new_def names)
qed

section \<open>The registration count\<close>

lemma server_add_procedure_count_added:
  "server_add_procedure st args = Inr (r, st') \<Longrightarrow> count_added (self st') = count_added (self st)"
  by (auto simp: server_add_procedure_def split: list.splits py_arg.splits sum.splits)

text \<open>
  C10. \<^verbatim>\<open>add_procedure\<close> never changes \<^verbatim>\<open>count_added\<close>: after any sequence of calls of
  \<^verbatim>\<open>add_procedure\<close> (registrations and rejected arguments alike) the length the server
  object reports is the one it reported before.
\<close>

theorem add_procedures_keeps_callbacks_count:
  "add_procedures st regs = Inr st' \<Longrightarrow>
     server_callbacks_count (self st') = server_callbacks_count (self st)"
proof (induction regs arbitrary: st)
  case Nil
  then show ?case by simp
next
  case (Cons args rest)
  from Cons.prems obtain r st1 where
    step: "server_add_procedure st args = Inr (r, st1)" and
    run: "add_procedures st1 rest = Inr st'"
    by (auto split: sum.splits)
  from Cons.IH [OF run] server_add_procedure_count_added [OF step]
  show ?case by (simp add: server_callbacks_count_def)
qed

theorem add_procedures_keeps_callbacks_count_witness:
  "\<exists>st'. add_procedures state_initial [[Function proc_f], [Function proc_g]] = Inr st'
     \<and> server (self st') = [''f'', ''g'']
     \<and> server_callbacks_count (self st') = server_callbacks_count (self state_initial)
     \<and> server_callbacks_count (self st') = 0"
proof -
  from add_proc_f_proc_g obtain st' where
    run: "add_procedures state_initial [[Function proc_f], [Function proc_g]] = Inr st'" and
    names: "server (self st') = [''f'', ''g'']" and
    zero: "count_added (self st') = 0"
    by (simp add: server_new_def)
  from add_procedures_keeps_callbacks_count [OF run]
  have "server_callbacks_count (self st') = server_callbacks_count (self state_initial)" .
  with run names zero show ?thesis
    by (auto simp: server_callbacks_count_def)
qed

section \<open>The marshaller's loop\<close>

lemma may_have_name_simps:
  "may_have_name POSITIONAL_ONLY = False" "may_have_name POSITIONAL_OR_KEYWORD = True"
  "may_have_name VAR_POSITIONAL = True" "may_have_name KEYWORD_ONLY = True"
  "may_have_name VAR_KEYWORD = True"
  by (simp_all add: may_have_name_def)

lemma may_have_pos_simps:
  "may_have_pos POSITIONAL_ONLY = False" "may_have_pos POSITIONAL_OR_KEYWORD = True"
  "may_have_pos VAR_POSITIONAL = True" "may_have_pos KEYWORD_ONLY = True"
  "may_have_pos VAR_KEYWORD = False"
  by (simp_all add: may_have_pos_def)

text \<open>
  A run of the loop over distinct indices that ends without a fault: the tuple keeps its
  length, the getter calls are those of the iterations in order, a slot outside the
  indices is untouched, and a slot at an index holds what its iteration stored.
\<close>

lemma marshal_loop_result:
  "marshal_loop rt call w js (tr, args) = (tr', Inr args') \<Longrightarrow> distinct js \<Longrightarrow>
     length args' = length args \<and>
     tr' = tr @ concat (map (\<lambda>j. fst (marshal_param rt call (read_param w j) j)) js) \<and>
     (\<forall>j. j \<notin> set js \<longrightarrow> args' ! j = args ! j) \<and>
     (\<forall>j. j \<in> set js \<and> j < length args \<longrightarrow>
        (\<exists>v. snd (marshal_param rt call (read_param w j) j) = Inr v \<and>
              args' ! j = (case v of None \<Rightarrow> args ! j | Some obj \<Rightarrow> Some obj)))"
proof (induction js arbitrary: tr args)
  case Nil
  then show ?case by simp
next
  case (Cons i rest)
  obtain tr_i r where mp: "marshal_param rt call (read_param w i) i = (tr_i, r)"
    by (cases "marshal_param rt call (read_param w i) i")
  from Cons.prems(1) mp obtain v where r: "r = Inr v"
    by (cases r) auto
  define args1 where "args1 = (case v of None \<Rightarrow> args | Some obj \<Rightarrow> args[i := Some obj])"
  from Cons.prems(1) mp r
  have run: "marshal_loop rt call w rest (tr @ tr_i, args1) = (tr', Inr args')"
    by (cases v) (auto simp: args1_def)
  from Cons.prems(2) have d: "distinct rest" and ni: "i \<notin> set rest"
    by auto
  note IH = Cons.IH [OF run d]
  have len1: "length args1 = length args"
    by (cases v) (auto simp: args1_def)
  have other: "args1 ! j = args ! j" if "j \<noteq> i" for j
    using that by (cases v) (auto simp: args1_def)
  have at_i: "args1 ! i = (case v of None \<Rightarrow> args ! i | Some obj \<Rightarrow> Some obj)"
    if "i < length args"
    using that by (cases v) (auto simp: args1_def)
  show ?case
  proof (intro conjI allI impI)
    show "length args' = length args"
      using IH len1 by simp
    show "tr' = tr @ concat (map (\<lambda>j. fst (marshal_param rt call (read_param w j) j)) (i # rest))"
      using IH mp by simp
  next
    fix j
    assume "j \<notin> set (i # rest)"
    then show "args' ! j = args ! j"
      using IH other by auto
  next
    fix j
    assume j: "j \<in> set (i # rest) \<and> j < length args"
    show "\<exists>v. snd (marshal_param rt call (read_param w j) j) = Inr v \<and>
              args' ! j = (case v of None \<Rightarrow> args ! j | Some obj \<Rightarrow> Some obj)"
    proof (cases "j = i")
      case True
      then have "args' ! j = args1 ! i"
        using IH ni by auto
      with True j at_i mp r show ?thesis
        by auto
    next
      case False
      with j have "j \<in> set rest"
        by auto
      with IH j len1 obtain v' where
        "snd (marshal_param rt call (read_param w j) j) = Inr v'"
        "args' ! j = (case v' of None \<Rightarrow> args1 ! j | Some obj \<Rightarrow> Some obj)"
        by auto
      with other [OF False] show ?thesis
        by (cases v') auto
    qed
  qed
qed

lemma those_Some:
  "those xs = Some ys \<Longrightarrow>
     length ys = length xs \<and> (\<forall>j < length xs. xs ! j = Some (ys ! j))"
proof (induction xs arbitrary: ys)
  case Nil
  then show ?case by simp
next
  case (Cons x xs)
  from Cons.prems obtain y zs where
    x: "x = Some y" and rest: "those xs = Some zs" and ys: "ys = y # zs"
    by (auto split: option.splits)
  from Cons.IH [OF rest] x ys show ?case
    by (auto simp: nth_Cons')
qed

text \<open>What a run of \<^verbatim>\<open>wrapper\<close> that reaches the reply has done.\<close>

lemma wrapper_completed:
  "wrapper rt w call = (tr, Inr out) \<Longrightarrow>
     callable w = Some (called out) \<and>
     response out = func_body (called out) (arguments out) \<and>
     buffer_size out = max_response_length \<and>
     content out = snd (to_string rt (response out)) \<and>
     length (content out) \<le> max_response_length \<and>
     (\<exists>args. marshal_loop rt call w [0 ..< params_cnt w] ([], replicate (params_cnt w) None)
               = (tr, Inr args) \<and> those args = Some (arguments out))"
  by (auto simp: wrapper_def Let_def split: prod.splits sum.splits option.splits if_splits)

text \<open>
  In such a run every slot of the tuple was set, argument \<open>j\<close> is what the iteration for
  descriptor \<open>j\<close> stored, and the getter calls are those of the iterations in order.
\<close>

lemma wrapper_arguments:
  assumes "wrapper rt w call = (tr, Inr out)"
  shows "length (arguments out) = params_cnt w"
    and "tr = concat (map (\<lambda>j. fst (marshal_param rt call (read_param w j) j)) [0 ..< params_cnt w])"
    and "j < params_cnt w \<Longrightarrow>
           snd (marshal_param rt call (read_param w j) j) = Inr (Some (arguments out ! j))"
proof -
  from wrapper_completed [OF assms] obtain args where
    run: "marshal_loop rt call w [0 ..< params_cnt w] ([], replicate (params_cnt w) None)
            = (tr, Inr args)" and
    all_set: "those args = Some (arguments out)"
    by blast
  note res = marshal_loop_result [OF run distinct_upt]
  note set = those_Some [OF all_set]
  from res set show "length (arguments out) = params_cnt w"
    by simp
  from res show "tr = concat (map (\<lambda>j. fst (marshal_param rt call (read_param w j) j)) [0 ..< params_cnt w])"
    by simp
  assume j: "j < params_cnt w"
  with res obtain v where
    v: "snd (marshal_param rt call (read_param w j) j) = Inr v" and
    slot: "args ! j = (case v of None \<Rightarrow> replicate (params_cnt w) None ! j | Some obj \<Rightarrow> Some obj)"
    by auto
  from res j set have "args ! j = Some (arguments out ! j)"
    by simp
  with slot j have "v = Some (arguments out ! j)"
    by (cases v) auto
  with v show "snd (marshal_param rt call (read_param w j) j) = Inr (Some (arguments out ! j))"
    by simp
qed

text \<open>
  The iteration for a descriptor that passes both tests and has a name of positive
  length, branch by branch: the value found by name is the one stored; without one, the
  value found by position is stored, or the uninitialised \<^verbatim>\<open>res\<close>. In the string branch
  only a value found by name can be stored. The bytes branch calls no getter and stores
  nothing.
\<close>

lemma marshal_param_both:
  assumes "may_have_name (kind p)" "may_have_pos (kind p)"
    and "name p = Some nm" "nm \<noteq> []"
    and "type p = Some t" "is_type_object t"
  shows "PyType_IsSubtype t PyBool_Type \<Longrightarrow>
           marshal_param rt call (Some p) i =
             (case ujrpc_param_named_bool call nm of
                Some v \<Rightarrow> ([By_Name nm], Inr (Some (Py_Bool v)))
              | None \<Rightarrow>
                  ([By_Name nm, By_Position i],
                   Inr (Some (Py_Bool (case ujrpc_param_positional_bool call i of
                                         Some v \<Rightarrow> v | None \<Rightarrow> uninit_bool rt i)))))"
    and "\<not> PyType_IsSubtype t PyBool_Type \<Longrightarrow> PyType_IsSubtype t PyLong_Type \<Longrightarrow>
           marshal_param rt call (Some p) i =
             (case ujrpc_param_named_i64 call nm of
                Some v \<Rightarrow> ([By_Name nm], Inr (Some (PyLong_FromSsize_t v)))
              | None \<Rightarrow>
                  ([By_Name nm, By_Position i],
                   Inr (Some (PyLong_FromSsize_t (case ujrpc_param_positional_i64 call i of
                                                    Some v \<Rightarrow> v | None \<Rightarrow> uninit_i64 rt i)))))"
    and "\<not> PyType_IsSubtype t PyBool_Type \<Longrightarrow> \<not> PyType_IsSubtype t PyLong_Type \<Longrightarrow>
         PyType_IsSubtype t PyFloat_Type \<Longrightarrow>
           marshal_param rt call (Some p) i =
             (case ujrpc_param_named_f64 call nm of
                Some v \<Rightarrow> ([By_Name nm], Inr (Some (Py_Float v)))
              | None \<Rightarrow>
                  ([By_Name nm, By_Position i],
                   Inr (Some (Py_Float (case ujrpc_param_positional_f64 call i of
                                          Some v \<Rightarrow> v | None \<Rightarrow> uninit_f64 rt i)))))"
    and "\<not> PyType_IsSubtype t PyBool_Type \<Longrightarrow> \<not> PyType_IsSubtype t PyLong_Type \<Longrightarrow>
         \<not> PyType_IsSubtype t PyFloat_Type \<Longrightarrow> PyType_IsSubtype t PyBytes_Type \<Longrightarrow>
           marshal_param rt call (Some p) i = ([], Inr None)"
    and "\<not> PyType_IsSubtype t PyBool_Type \<Longrightarrow> \<not> PyType_IsSubtype t PyLong_Type \<Longrightarrow>
         \<not> PyType_IsSubtype t PyFloat_Type \<Longrightarrow> \<not> PyType_IsSubtype t PyBytes_Type \<Longrightarrow>
         PyType_IsSubtype t PyUnicode_Type \<Longrightarrow>
           marshal_param rt call (Some p) i =
             (case ujrpc_param_named_str call nm of
                Some s \<Rightarrow> ([By_Name nm], Inr (Some (Py_Unicode s)))
              | None \<Rightarrow> ([By_Name nm, By_Position i], Inl Uninitialised_Read))"
  using assms
  by (simp_all add: marshal_param_def fetch_def Let_def split: option.splits)

lemma deduce_proc_greet:
  "deduce_parameters w proc_greet =
     Inr (w\<lparr>u_params := [Some \<lparr>name = Some ''who'', default_value = None,
                                type = Some PyUnicode_Type, kind = POSITIONAL_OR_KEYWORD\<rparr>],
             params_cnt := 1\<rparr>)"
  by (simp add: deduce_defs proc_greet_def)

section \<open>Name first, then position\<close>

text \<open>
  C4, evaluated. \<^verbatim>\<open>POSITIONAL_OR_KEYWORD\<close> passes both tests. For such a descriptor of
  type \<^verbatim>\<open>bytes\<close>, in a call that holds a value under its name and at its position, the
  marshaller calls no getter and stores nothing. For \<^verbatim>\<open>def greet(who: str)\<close>, called with
  a value at position 0 only, the marshaller asks by name, then by position, and the
  value cannot reach \<^verbatim>\<open>res\<close>: the run ends at the use of the uninitialised \<^verbatim>\<open>res\<close> and
  \<^verbatim>\<open>greet\<close> is not called.
\<close>

theorem bytes_is_skipped_and_str_by_position_is_lost:
  "may_have_name POSITIONAL_OR_KEYWORD \<and> may_have_pos POSITIONAL_OR_KEYWORD
   \<and> marshal_param rt
        (call_empty\<lparr>ujrpc_param_named_str := [''data'' \<mapsto> ''payload''],
                    ujrpc_param_positional_str := [0 \<mapsto> ''payload'']\<rparr>)
        (Some \<lparr>name = Some ''data'', default_value = None, type = Some PyBytes_Type,
               kind = POSITIONAL_OR_KEYWORD\<rparr>) 0
       = ([], Inr None)
   \<and> (\<exists>st. server_add_procedure state_initial [Function proc_greet] = Inr (Returned Py_None, st)
         \<and> read_param (wrap st) 0 =
             Some \<lparr>name = Some ''who'', default_value = None, type = Some PyUnicode_Type,
                   kind = POSITIONAL_OR_KEYWORD\<rparr>
         \<and> wrapper rt (wrap st) (call_empty\<lparr>ujrpc_param_positional_str := [0 \<mapsto> ''Ann'']\<rparr>)
             = ([By_Name ''who'', By_Position 0], Inl Uninitialised_Read))"
proof -
  have tests: "may_have_name POSITIONAL_OR_KEYWORD" "may_have_pos POSITIONAL_OR_KEYWORD"
    by (simp_all add: may_have_name_simps may_have_pos_simps)
  have skipped: "marshal_param rt
        (call_empty\<lparr>ujrpc_param_named_str := [''data'' \<mapsto> ''payload''],
                    ujrpc_param_positional_str := [0 \<mapsto> ''payload'']\<rparr>)
        (Some \<lparr>name = Some ''data'', default_value = None, type = Some PyBytes_Type,
               kind = POSITIONAL_OR_KEYWORD\<rparr>) 0
       = ([], Inr None)"
    by (simp add: marshal_param_def may_have_name_simps may_have_pos_simps)
  obtain st where
    reg: "server_add_procedure state_initial [Function proc_greet] = Inr (Returned Py_None, st)" and
    w: "wrap st = \<lparr>u_params = [Some \<lparr>name = Some ''who'', default_value = None,
                                      type = Some PyUnicode_Type,
                                      kind = POSITIONAL_OR_KEYWORD\<rparr>],
                   params_cnt = 1, callable = Some proc_greet\<rparr>"
    by (simp add: server_add_procedure_def deduce_proc_greet state_initial_def wrap_initial_def)
  have slot: "read_param (wrap st) 0 =
             Some \<lparr>name = Some ''who'', default_value = None, type = Some PyUnicode_Type,
                   kind = POSITIONAL_OR_KEYWORD\<rparr>"
    by (simp add: w read_param_def)
  have lost: "wrapper rt (wrap st) (call_empty\<lparr>ujrpc_param_positional_str := [0 \<mapsto> ''Ann'']\<rparr>)
             = ([By_Name ''who'', By_Position 0], Inl Uninitialised_Read)"
    by (simp add: w wrapper_defs call_empty_def)
  from tests skipped reg slot lost show ?thesis
    by blast
qed

section \<open>One shared signature\<close>

text \<open>Every registration overwrites the callable and the count in the global \<^verbatim>\<open>wrap\<close>.\<close>

lemma server_add_procedure_overwrites_wrap:
  "server_add_procedure st [Function procedure] = Inr (r, st') \<Longrightarrow>
     callable (wrap st') = Some procedure \<and>
     params_cnt (wrap st') = nat (total_params_of procedure mod 2 ^ 64) \<and>
     server (self st') = server (self st) @ [func_name procedure]"
  by (auto simp: server_add_procedure_def deduce_parameters_def Let_def split: sum.splits)

text \<open>
  C1, evaluated. After \<^verbatim>\<open>add_procedure(f)\<close> and then \<^verbatim>\<open>add_procedure(g)\<close> the global
  \<^verbatim>\<open>wrap\<close> holds the signature and the callable of \<^verbatim>\<open>g\<close>. A request for \<^verbatim>\<open>f\<close> with 5 at
  position 0 makes the marshaller ask for the parameter \<^verbatim>\<open>x\<close> of \<^verbatim>\<open>g\<close>, call \<^verbatim>\<open>g\<close> and
  reply \<^verbatim>\<open>false\<close>, where \<^verbatim>\<open>f(5)\<close> is \<^verbatim>\<open>True\<close>.
\<close>

theorem request_for_f_runs_g:
  "\<exists>st. add_procedures state_initial [[Function proc_f], [Function proc_g]] = Inr st
     \<and> callable (wrap st) = Some proc_g
     \<and> take_call rt_all st ''f'' (call_empty\<lparr>ujrpc_param_positional_i64 := [0 \<mapsto> 5]\<rparr>) =
         Some ([By_Name ''x'', By_Position 0],
               Inr \<lparr>called = proc_g, arguments = [Py_Long 5],
                    response = Some (Py_Bool False), buffer_size = 1024, content = ''false''\<rparr>)
     \<and> func_body proc_f [Py_Long 5] = Some (Py_Bool True)"
proof -
  from add_proc_f_proc_g obtain st where
    run: "add_procedures state_initial [[Function proc_f], [Function proc_g]] = Inr st" and
    w: "wrap st = \<lparr>u_params = [Some \<lparr>name = Some ''x'', default_value = None,
                                      type = Some PyLong_Type, kind = POSITIONAL_OR_KEYWORD\<rparr>],
                   params_cnt = 1, callable = Some proc_g\<rparr>" and
    names: "server (self st) = [''f'', ''g'']"
    by simp
  have target: "callable (wrap st) = Some proc_g"
    by (simp add: w)
  have reply: "take_call rt_all st ''f'' (call_empty\<lparr>ujrpc_param_positional_i64 := [0 \<mapsto> 5]\<rparr>) =
         Some ([By_Name ''x'', By_Position 0],
               Inr \<lparr>called = proc_g, arguments = [Py_Long 5],
                    response = Some (Py_Bool False), buffer_size = 1024, content = ''false''\<rparr>)"
    apply (simp add: take_call_def names w wrapper_defs call_empty_def rt_all_def
        to_string_all_def PyLong_FromSsize_t_def)
    apply (simp add: proc_g_def)
    done
  have own: "func_body proc_f [Py_Long 5] = Some (Py_Bool True)"
    by (simp add: proc_f_def)
  from run target reply own show ?thesis
    by blast
qed

section \<open>The number of descriptors\<close>

text \<open>Whenever \<^verbatim>\<open>deduce_parameters\<close> returns, \<^verbatim>\<open>params_cnt\<close> is \<^verbatim>\<open>total_params\<close>.\<close>

lemma deduce_parameters_params_cnt:
  "deduce_parameters w func = Inr w' \<Longrightarrow>
     params_cnt w' = nat (total_params_of func mod 2 ^ 64) \<and> callable w' = callable w"
  by (auto simp: deduce_parameters_def Let_def split: sum.splits)

text \<open>
  C2, evaluated. For \<^verbatim>\<open>def star(*args: int)\<close> one descriptor is written, into a block of
  four slots, and \<^verbatim>\<open>params_cnt\<close> is 4: \<^verbatim>\<open>co_flags & CO_VARARGS\<close> is 4, not 1.
\<close>

theorem deduce_star_counts_four:
  "deduce_parameters wrap_initial proc_star =
     Inr \<lparr>u_params = [Some \<lparr>name = Some ''args'', default_value = None,
                             type = Some PyLong_Type, kind = VAR_POSITIONAL\<rparr>,
                      None, None, None],
          params_cnt = 4, callable = None\<rparr>
   \<and> co_argcount proc_star + 1 + co_kwonlyargcount proc_star = 1"
  by (simp add: deduce_defs proc_star_def wrap_initial_def numeral_eq_Suc)

text \<open>
  C6, evaluated. For \<^verbatim>\<open>def f(a, b=2, *args, c, d=4, **kw) -> None\<close> the six descriptors are written in
  the order \<^verbatim>\<open>a, b, args, c, d, kw\<close> with the kinds and defaults of the signature, into a
  block of sixteen slots, and \<^verbatim>\<open>params_cnt\<close> is 16.
\<close>

theorem deduce_six_counts_sixteen:
  "deduce_parameters wrap_initial proc_six =
     Inr \<lparr>u_params =
            [Some \<lparr>name = Some ''a'', default_value = None, type = None,
                   kind = POSITIONAL_OR_KEYWORD\<rparr>,
             Some \<lparr>name = Some ''b'', default_value = Some (Py_Long 2), type = None,
                   kind = POSITIONAL_OR_KEYWORD\<rparr>,
             Some \<lparr>name = Some ''args'', default_value = None, type = None,
                   kind = VAR_POSITIONAL\<rparr>,
             Some \<lparr>name = Some ''c'', default_value = None, type = None,
                   kind = KEYWORD_ONLY\<rparr>,
             Some \<lparr>name = Some ''d'', default_value = Some (Py_Long 4), type = None,
                   kind = KEYWORD_ONLY\<rparr>,
             Some \<lparr>name = Some ''kw'', default_value = None, type = None,
                   kind = VAR_KEYWORD\<rparr>]
            @ replicate 10 None,
          params_cnt = 16, callable = None\<rparr>"
  by (simp add: deduce_defs proc_six_def wrap_initial_def)

text \<open>
  C7, evaluated. For \<^verbatim>\<open>def opts(a: int, **kw: int): x = 1\<close> the name after the
  keyword-only names is \<^verbatim>\<open>kw\<close>, and the descriptor of kind \<^verbatim>\<open>VAR_KEYWORD\<close> gets the name
  one slot further, the local \<^verbatim>\<open>x\<close>: \<^verbatim>\<open>co_flags && CO_VARARGS\<close> is 1 although the
  function has no \<^verbatim>\<open>*args\<close>.
\<close>

theorem deduce_opts_names_the_local:
  "deduce_parameters wrap_initial proc_opts =
     Inr \<lparr>u_params =
            [Some \<lparr>name = Some ''a'', default_value = None, type = Some PyLong_Type,
                   kind = POSITIONAL_OR_KEYWORD\<rparr>,
             Some \<lparr>name = Some ''x'', default_value = None, type = None,
                   kind = VAR_KEYWORD\<rparr>]
            @ replicate 7 None,
          params_cnt = 9, callable = None\<rparr>
   \<and> (co_flags proc_opts AND CO_VARARGS) = 0
   \<and> PyTuple_GetItem (co_varnames proc_opts)
        (co_argcount proc_opts + co_kwonlyargcount proc_opts) = Some ''kw''"
  by (simp add: deduce_defs proc_opts_def wrap_initial_def)

section \<open>The two tests on the kind\<close>

text \<open>
  C3, evaluated. The two tests for each kind: a \<^verbatim>\<open>POSITIONAL_ONLY\<close> descriptor passes
  neither, \<^verbatim>\<open>VAR_POSITIONAL\<close> passes the test for a name and \<^verbatim>\<open>KEYWORD_ONLY\<close> the test for
  a position. For a \<^verbatim>\<open>POSITIONAL_ONLY\<close> descriptor of type \<^verbatim>\<open>int\<close> no getter is called, and
  the argument is made from the uninitialised \<^verbatim>\<open>res\<close>.
\<close>

theorem kind_tests_table:
  "\<not> may_have_name POSITIONAL_ONLY \<and> \<not> may_have_pos POSITIONAL_ONLY
   \<and> may_have_name POSITIONAL_OR_KEYWORD \<and> may_have_pos POSITIONAL_OR_KEYWORD
   \<and> may_have_name VAR_POSITIONAL \<and> may_have_pos VAR_POSITIONAL
   \<and> may_have_name KEYWORD_ONLY \<and> may_have_pos KEYWORD_ONLY
   \<and> may_have_name VAR_KEYWORD \<and> \<not> may_have_pos VAR_KEYWORD
   \<and> marshal_param rt (call_empty\<lparr>ujrpc_param_positional_i64 := [0 \<mapsto> 7]\<rparr>)
        (Some \<lparr>name = Some ''a'', default_value = None, type = Some PyLong_Type,
               kind = POSITIONAL_ONLY\<rparr>) 0
       = ([], Inr (Some (PyLong_FromSsize_t (uninit_i64 rt 0))))"
  by (simp add: may_have_name_simps may_have_pos_simps marshal_param_def fetch_def)

section \<open>A parameter the call does not hold\<close>

lemma deduce_proc_h:
  "deduce_parameters w proc_h =
     Inr (w\<lparr>u_params := [Some \<lparr>name = Some ''a'', default_value = Some (Py_Long 2),
                                type = Some PyLong_Type, kind = POSITIONAL_OR_KEYWORD\<rparr>],
             params_cnt := 1\<rparr>)"
  by (simp add: deduce_defs proc_h_def)

text \<open>
  C5, evaluated. \<^verbatim>\<open>def h(a: int = 2)\<close> is registered and called with a context that holds
  no parameter. Both getters are tried; the argument is made from the uninitialised
  \<^verbatim>\<open>res\<close>, not from the default 2 in the descriptor; \<^verbatim>\<open>h\<close> is called and its result is
  the reply.
\<close>

theorem missing_parameter_is_not_defaulted:
  "\<exists>st. server_add_procedure state_initial [Function proc_h] = Inr (Returned Py_None, st)
     \<and> read_param (wrap st) 0 =
         Some \<lparr>name = Some ''a'', default_value = Some (Py_Long 2), type = Some PyLong_Type,
               kind = POSITIONAL_OR_KEYWORD\<rparr>
     \<and> wrapper rt (wrap st) call_empty =
         ([By_Name ''a'', By_Position 0],
          if 1024 < length (snd (to_string rt (Some (Py_Bool (sint (uninit_i64 rt 0) = 2)))))
          then Inl Buffer_Overrun
          else Inr \<lparr>called = proc_h, arguments = [Py_Long (sint (uninit_i64 rt 0))],
                    response = Some (Py_Bool (sint (uninit_i64 rt 0) = 2)),
                    buffer_size = 1024,
                    content = snd (to_string rt (Some (Py_Bool (sint (uninit_i64 rt 0) = 2))))\<rparr>)"
proof -
  obtain st where
    reg: "server_add_procedure state_initial [Function proc_h] = Inr (Returned Py_None, st)" and
    w: "wrap st = \<lparr>u_params = [Some \<lparr>name = Some ''a'', default_value = Some (Py_Long 2),
                                      type = Some PyLong_Type, kind = POSITIONAL_OR_KEYWORD\<rparr>],
                   params_cnt = 1, callable = Some proc_h\<rparr>"
    by (simp add: server_add_procedure_def deduce_proc_h state_initial_def wrap_initial_def)
  have slot: "read_param (wrap st) 0 =
         Some \<lparr>name = Some ''a'', default_value = Some (Py_Long 2), type = Some PyLong_Type,
               kind = POSITIONAL_OR_KEYWORD\<rparr>"
    by (simp add: w read_param_def)
  have run: "wrapper rt (wrap st) call_empty =
         ([By_Name ''a'', By_Position 0],
          if 1024 < length (snd (to_string rt (Some (Py_Bool (sint (uninit_i64 rt 0) = 2)))))
          then Inl Buffer_Overrun
          else Inr \<lparr>called = proc_h, arguments = [Py_Long (sint (uninit_i64 rt 0))],
                    response = Some (Py_Bool (sint (uninit_i64 rt 0) = 2)),
                    buffer_size = 1024,
                    content = snd (to_string rt (Some (Py_Bool (sint (uninit_i64 rt 0) = 2))))\<rparr>)"
    apply (simp add: w wrapper_defs call_empty_def PyLong_FromSsize_t_def)
    apply (simp add: proc_h_def)
    done
  from reg slot run show ?thesis
    by blast
qed

section \<open>The response buffer\<close>

text \<open>
  C8, evaluated. \<^verbatim>\<open>big\<close> returns a string of 2000 characters. With a serialiser that
  writes every byte, the 2002 bytes go into the block of 1024. With a serialiser that
  stops after 1024 bytes and gives status -1, the first 1024 bytes are the reply.
\<close>

theorem long_response_overruns_or_is_cut:
  "wrapper rt_all \<lparr>u_params = [], params_cnt = 0, callable = Some proc_big\<rparr> call_empty
     = ([], Inl Buffer_Overrun)
   \<and> wrapper rt_bounded \<lparr>u_params = [], params_cnt = 0, callable = Some proc_big\<rparr> call_empty
     = ([], Inr \<lparr>called = proc_big, arguments = [],
                 response = Some (Py_Unicode (replicate 2000 (CHR ''x''))),
                 buffer_size = 1024, content = CHR 0x22 # replicate 1023 (CHR ''x'')\<rparr>)
   \<and> to_string_bounded (Some (Py_Unicode (replicate 2000 (CHR ''x''))))
     = (-1, CHR 0x22 # replicate 1023 (CHR ''x''))
   \<and> deduce_parameters wrap_initial proc_big = Inr \<lparr>u_params = [], params_cnt = 0, callable = None\<rparr>"
  by (simp add: wrapper_defs rt_all_def rt_bounded_def to_string_bounded_def to_string_all_def
      proc_big_def deduce_defs wrap_initial_def)

section \<open>Parameters of type bytes and without a type\<close>

lemma deduce_proc_size:
  "deduce_parameters w proc_size =
     Inr (w\<lparr>u_params := [Some \<lparr>name = Some ''data'', default_value = None,
                                type = Some PyBytes_Type, kind = POSITIONAL_OR_KEYWORD\<rparr>],
             params_cnt := 1\<rparr>)"
  by (simp add: deduce_defs proc_size_def)

text \<open>
  C9, evaluated. \<^verbatim>\<open>def size(data: bytes)\<close> is registered and called with a context that
  holds \<^verbatim>\<open>data\<close> under its name and at position 0. No getter is called and the loop ends
  with slot 0 of the argument tuple still NULL; \<^verbatim>\<open>PyObject_CallObject\<close> reads through that
  slot, so \<^verbatim>\<open>size\<close> is not entered and no reply is sent. A descriptor without a type has
  a NULL \<^verbatim>\<open>type\<close>, which \<^verbatim>\<open>PyType_IsSubtype\<close> reads through.
\<close>

theorem bytes_parameter_slot_stays_null:
  "\<exists>st. server_add_procedure state_initial [Function proc_size] = Inr (Returned Py_None, st)
     \<and> marshal_loop rt
         (call_empty\<lparr>ujrpc_param_named_str := [''data'' \<mapsto> ''payload''],
                     ujrpc_param_positional_str := [0 \<mapsto> ''payload'']\<rparr>)
         (wrap st) [0 ..< params_cnt (wrap st)] ([], replicate (params_cnt (wrap st)) None)
       = ([], Inr [None])
     \<and> wrapper rt (wrap st)
         (call_empty\<lparr>ujrpc_param_named_str := [''data'' \<mapsto> ''payload''],
                     ujrpc_param_positional_str := [0 \<mapsto> ''payload'']\<rparr>)
       = ([], Inl Null_Dereference)
     \<and> marshal_param rt
         (call_empty\<lparr>ujrpc_param_named_str := [''raw'' \<mapsto> ''payload''],
                     ujrpc_param_positional_str := [0 \<mapsto> ''payload'']\<rparr>)
         (Some \<lparr>name = Some ''raw'', default_value = None, type = None,
                kind = POSITIONAL_OR_KEYWORD\<rparr>) 0
       = ([], Inl Null_Dereference)"
proof -
  obtain st where
    reg: "server_add_procedure state_initial [Function proc_size] = Inr (Returned Py_None, st)" and
    w: "wrap st = \<lparr>u_params = [Some \<lparr>name = Some ''data'', default_value = None,
                                      type = Some PyBytes_Type, kind = POSITIONAL_OR_KEYWORD\<rparr>],
                   params_cnt = 1, callable = Some proc_size\<rparr>"
    by (simp add: server_add_procedure_def deduce_proc_size state_initial_def wrap_initial_def)
  have loop: "marshal_loop rt
         (call_empty\<lparr>ujrpc_param_named_str := [''data'' \<mapsto> ''payload''],
                     ujrpc_param_positional_str := [0 \<mapsto> ''payload'']\<rparr>)
         (wrap st) [0 ..< params_cnt (wrap st)] ([], replicate (params_cnt (wrap st)) None)
       = ([], Inr [None])"
    by (simp add: w marshal_param_def read_param_def)
  have run: "wrapper rt (wrap st)
         (call_empty\<lparr>ujrpc_param_named_str := [''data'' \<mapsto> ''payload''],
                     ujrpc_param_positional_str := [0 \<mapsto> ''payload'']\<rparr>)
       = ([], Inl Null_Dereference)"
    by (simp add: w wrapper_defs)
  have untyped: "marshal_param rt
         (call_empty\<lparr>ujrpc_param_named_str := [''raw'' \<mapsto> ''payload''],
                     ujrpc_param_positional_str := [0 \<mapsto> ''payload'']\<rparr>)
         (Some \<lparr>name = Some ''raw'', default_value = None, type = None,
                kind = POSITIONAL_OR_KEYWORD\<rparr>) 0
       = ([], Inl Null_Dereference)"
    by (simp add: marshal_param_def)
  from reg loop run untyped show ?thesis
    by blast
qed

end
